theory Spec2Isabelle
  imports Main "HOL-Library.Word"
begin

unbundle bit_operations_syntax

section \<open>Data model of nes.h\<close>

text \<open>
  The target is a 6502: \<open>uint8_t\<close> and \<open>int8_t\<close> are one byte, \<open>uint16_t\<close> and
  every data pointer are two bytes. An \<open>int8_t\<close> is kept as the byte that holds it and
  read with \<open>sint\<close>.
\<close>

type_synonym uint8_t = "8 word"
type_synonym int8_t = "8 word"
type_synonym uint16_t = "16 word"

text \<open>
  \<^verbatim>\<open>typedef struct OAM_item_t { uint8_t y; uint8_t tile; uint8_t prop; uint8_t x; } OAM_item_t;\<close>
  The fields keep the order of the struct; they carry the prefix \<open>oam_\<close> because a
  record field is a constant of the whole theory.
\<close>

record OAM_item_t =
  oam_y :: uint8_t
  oam_tile :: uint8_t
  oam_prop :: uint8_t
  oam_x :: uint8_t

text \<open>\<^verbatim>\<open>#define MAX_HARDWARE_SPRITES 64\<close>\<close>

definition MAX_HARDWARE_SPRITES :: nat where
  "MAX_HARDWARE_SPRITES = 64"

text \<open>
  The globals the header declares \<open>extern\<close> and its inline code reads or writes:
  \<open>shadow_OAM[]\<close>, \<open>_shadow_OAM_base\<close>, \<open>_map_tile_offset\<close>, \<open>_submap_tile_offset\<close>,
  \<open>bkg_scroll_x\<close>, \<open>bkg_scroll_y\<close>, \<open>shadow_PPUMASK\<close> and \<open>shadow_PPUCTRL\<close> (an
  identifier cannot start with an underscore here, so the three names that do lose it).
  Everything else of the machine (the PPU and APU registers, the hardware OAM, video
  memory, the rest of RAM) is the extension part of the record, which no function of
  this theory can name.
\<close>

record machine =
  shadow_OAM :: "OAM_item_t list"
  shadow_OAM_base :: uint8_t
  map_tile_offset :: uint8_t
  submap_tile_offset :: uint8_t
  bkg_scroll_x :: uint8_t
  bkg_scroll_y :: uint8_t
  shadow_PPUMASK :: uint8_t
  shadow_PPUCTRL :: uint8_t

section \<open>Shadow OAM accessors\<close>

text \<open>
  \<open>shadow_OAM[nb]\<close> is an unchecked C array access. Inside the array it denotes the
  entry; outside it the behaviour is undefined, which the model reports as \<open>None\<close>
  instead of inventing a result.

  \<open>OAM_item_at\<close> is the read \<open>shadow_OAM[nb]\<close>, \<open>OAM_item_modify\<close> the
  read-modify-write through \<open>&shadow_OAM[nb]\<close>.
\<close>

definition OAM_item_at :: "uint8_t \<Rightarrow> 'a machine_scheme \<Rightarrow> OAM_item_t option" where
  "OAM_item_at nb s =
     (if unat nb < length (shadow_OAM s) then Some (shadow_OAM s ! unat nb) else None)"

definition OAM_item_modify ::
  "uint8_t \<Rightarrow> (OAM_item_t \<Rightarrow> OAM_item_t) \<Rightarrow> 'a machine_scheme \<Rightarrow> 'a machine_scheme option" where
  "OAM_item_modify nb f s =
     (if unat nb < length (shadow_OAM s)
      then Some (s\<lparr>shadow_OAM := (shadow_OAM s)[unat nb := f (shadow_OAM s ! unat nb)]\<rparr>)
      else None)"

text \<open>\<^verbatim>\<open>inline void set_sprite_tile(uint8_t nb, uint8_t tile) { shadow_OAM[nb].tile=tile; }\<close>\<close>

definition set_sprite_tile :: "uint8_t \<Rightarrow> uint8_t \<Rightarrow> 'a machine_scheme \<Rightarrow> 'a machine_scheme option" where
  "set_sprite_tile nb tile s = OAM_item_modify nb (\<lambda>itm. itm\<lparr>oam_tile := tile\<rparr>) s"

text \<open>\<^verbatim>\<open>inline uint8_t get_sprite_tile(uint8_t nb) { return shadow_OAM[nb].tile; }\<close>\<close>

definition get_sprite_tile :: "uint8_t \<Rightarrow> 'a machine_scheme \<Rightarrow> uint8_t option" where
  "get_sprite_tile nb s = map_option oam_tile (OAM_item_at nb s)"

text \<open>\<^verbatim>\<open>inline void set_sprite_prop(uint8_t nb, uint8_t prop) { shadow_OAM[nb].prop=prop; }\<close>\<close>

definition set_sprite_prop :: "uint8_t \<Rightarrow> uint8_t \<Rightarrow> 'a machine_scheme \<Rightarrow> 'a machine_scheme option" where
  "set_sprite_prop nb prop s = OAM_item_modify nb (\<lambda>itm. itm\<lparr>oam_prop := prop\<rparr>) s"

text \<open>\<^verbatim>\<open>inline uint8_t get_sprite_prop(uint8_t nb) { return shadow_OAM[nb].prop; }\<close>\<close>

definition get_sprite_prop :: "uint8_t \<Rightarrow> 'a machine_scheme \<Rightarrow> uint8_t option" where
  "get_sprite_prop nb s = map_option oam_prop (OAM_item_at nb s)"

text \<open>
  \<^verbatim>\<open>
  inline void move_sprite(uint8_t nb, uint8_t x, uint8_t y) {
      OAM_item_t * itm = &shadow_OAM[nb];
      itm->y=y, itm->x=x;
  }
  \<close>
\<close>

definition move_sprite ::
  "uint8_t \<Rightarrow> uint8_t \<Rightarrow> uint8_t \<Rightarrow> 'a machine_scheme \<Rightarrow> 'a machine_scheme option" where
  "move_sprite nb x y s = OAM_item_modify nb (\<lambda>itm. (itm\<lparr>oam_y := y\<rparr>)\<lparr>oam_x := x\<rparr>) s"

text \<open>
  \<^verbatim>\<open>
  inline void scroll_sprite(uint8_t nb, int8_t x, int8_t y) {
      OAM_item_t * itm = &shadow_OAM[nb];
      itm->y+=y, itm->x+=x;
  }
  \<close>
  In \<open>itm->y += y\<close> both operands are promoted to \<open>int\<close>: the field as an unsigned
  value (\<open>uint\<close>), the delta as a signed one (\<open>sint\<close>). The sum lies between -128 and
  382, so it cannot overflow an \<open>int\<close>, and the assignment converts it back to
  \<open>uint8_t\<close> (\<open>word_of_int\<close>).
\<close>

definition scroll_sprite ::
  "uint8_t \<Rightarrow> int8_t \<Rightarrow> int8_t \<Rightarrow> 'a machine_scheme \<Rightarrow> 'a machine_scheme option" where
  "scroll_sprite nb x y s =
     OAM_item_modify nb
       (\<lambda>itm. let itm1 = itm\<lparr>oam_y := word_of_int (uint (oam_y itm) + sint y)\<rparr>
              in itm1\<lparr>oam_x := word_of_int (uint (oam_x itm1) + sint x)\<rparr>) s"

text \<open>\<^verbatim>\<open>inline void hide_sprite(uint8_t nb) { shadow_OAM[nb].y = 240; }\<close>\<close>

definition hide_sprite :: "uint8_t \<Rightarrow> 'a machine_scheme \<Rightarrow> 'a machine_scheme option" where
  "hide_sprite nb s = OAM_item_modify nb (\<lambda>itm. itm\<lparr>oam_y := 240\<rparr>) s"

section \<open>OAM DMA configuration\<close>

text \<open>\<^verbatim>\<open>#define DISABLE_OAM_DMA _shadow_OAM_base = 0\<close>\<close>

definition DISABLE_OAM_DMA :: "'a machine_scheme \<Rightarrow> 'a machine_scheme" where
  "DISABLE_OAM_DMA s = s\<lparr>shadow_OAM_base := 0\<rparr>"

text \<open>
  \<^verbatim>\<open>#define ENABLE_OAM_DMA _shadow_OAM_base = (uint8_t)((uint16_t)&shadow_OAM >> 8)\<close>
  The address \<open>&shadow_OAM\<close> is fixed by the linker, outside this header; it is the
  first argument.
\<close>

definition ENABLE_OAM_DMA :: "uint16_t \<Rightarrow> 'a machine_scheme \<Rightarrow> 'a machine_scheme" where
  "ENABLE_OAM_DMA shadow_OAM_addr s = s\<lparr>shadow_OAM_base := ucast (drop_bit 8 shadow_OAM_addr)\<rparr>"

text \<open>
  \<^verbatim>\<open>
  inline void SET_SHADOW_OAM_ADDRESS(void * address) {
      _shadow_OAM_base = (uint8_t)((uint16_t)address >> 8);
  }
  \<close>
\<close>

definition SET_SHADOW_OAM_ADDRESS :: "uint16_t \<Rightarrow> 'a machine_scheme \<Rightarrow> 'a machine_scheme" where
  "SET_SHADOW_OAM_ADDRESS address s = s\<lparr>shadow_OAM_base := ucast (drop_bit 8 address)\<rparr>"

section \<open>Tile pattern data\<close>

text \<open>
  \<^verbatim>\<open>
  inline void set_native_tile_data(uint16_t first_tile, uint8_t nb_tiles, const uint8_t *data) {
      if (first_tile < 256) {
          set_bkg_data(first_tile, nb_tiles, data);
      } else {
          set_sprite_data(first_tile - 256, nb_tiles, data);
      }
  }
  \<close>
  \<open>set_bkg_data\<close> and \<open>set_sprite_data\<close> are only declared in the header
  (\<^verbatim>\<open>void set_bkg_data(uint8_t first_tile, uint8_t nb_tiles, const uint8_t *data)\<close>,
  and the same for sprites); they are the first two arguments, any two routines on
  any state. Their first parameter is a \<open>uint8_t\<close>, so the call converts the
  \<open>uint16_t\<close> argument to its low byte (\<open>ucast\<close>). \<open>first_tile - 256\<close> is computed
  in 16 bits and cannot wrap in the branch that computes it.
\<close>

definition set_native_tile_data ::
  "(uint8_t \<Rightarrow> uint8_t \<Rightarrow> uint16_t \<Rightarrow> 's \<Rightarrow> 's) \<Rightarrow>
   (uint8_t \<Rightarrow> uint8_t \<Rightarrow> uint16_t \<Rightarrow> 's \<Rightarrow> 's) \<Rightarrow>
   uint16_t \<Rightarrow> uint8_t \<Rightarrow> uint16_t \<Rightarrow> 's \<Rightarrow> 's" where
  "set_native_tile_data set_bkg_data set_sprite_data first_tile nb_tiles data s =
     (if first_tile < 256
      then set_bkg_data (ucast first_tile) nb_tiles data s
      else set_sprite_data (ucast (first_tile - 256)) nb_tiles data s)"

section \<open>Tile maps with a base tile\<close>

text \<open>
  \<open>set_bkg_tiles\<close> and \<open>set_bkg_submap\<close> are only declared in the header:
  \<^verbatim>\<open>void set_bkg_tiles(uint8_t x, uint8_t y, uint8_t w, uint8_t h, const uint8_t *tiles)\<close>
  and
  \<^verbatim>\<open>void set_bkg_submap(uint8_t x, uint8_t y, uint8_t w, uint8_t h, const uint8_t *map, uint8_t map_w)\<close>.
  They are arguments of the functions that call them: any routine from machine to
  machine, which may read the two offsets.
\<close>

type_synonym 'a set_bkg_tiles_t =
  "uint8_t \<Rightarrow> uint8_t \<Rightarrow> uint8_t \<Rightarrow> uint8_t \<Rightarrow> uint16_t \<Rightarrow> 'a machine_scheme \<Rightarrow> 'a machine_scheme"

type_synonym 'a set_bkg_submap_t =
  "uint8_t \<Rightarrow> uint8_t \<Rightarrow> uint8_t \<Rightarrow> uint8_t \<Rightarrow> uint16_t \<Rightarrow> uint8_t \<Rightarrow> 'a machine_scheme \<Rightarrow> 'a machine_scheme"

text \<open>
  \<^verbatim>\<open>
  inline void set_bkg_based_tiles(uint8_t x, uint8_t y, uint8_t w, uint8_t h,
                                  const uint8_t *tiles, uint8_t base_tile) {
      _map_tile_offset = base_tile;
      set_bkg_tiles(x, y, w, h, tiles);
      _map_tile_offset = 0;
  }
  \<close>
\<close>

definition set_bkg_based_tiles ::
  "'a set_bkg_tiles_t \<Rightarrow> uint8_t \<Rightarrow> uint8_t \<Rightarrow> uint8_t \<Rightarrow> uint8_t \<Rightarrow> uint16_t \<Rightarrow> uint8_t \<Rightarrow>
   'a machine_scheme \<Rightarrow> 'a machine_scheme" where
  "set_bkg_based_tiles set_bkg_tiles x y w h tiles base_tile s =
     (let s1 = s\<lparr>map_tile_offset := base_tile\<rparr>;
          s2 = set_bkg_tiles x y w h tiles s1
      in s2\<lparr>map_tile_offset := 0\<rparr>)"

text \<open>
  \<^verbatim>\<open>
  inline void set_bkg_based_submap(uint8_t x, uint8_t y, uint8_t w, uint8_t h,
                                   const uint8_t *map, uint8_t map_w, uint8_t base_tile) {
      _submap_tile_offset = base_tile;
      set_bkg_submap(x, y, w, h, map, map_w);
      _submap_tile_offset = 0;
  }
  \<close>
\<close>

definition set_bkg_based_submap ::
  "'a set_bkg_submap_t \<Rightarrow> uint8_t \<Rightarrow> uint8_t \<Rightarrow> uint8_t \<Rightarrow> uint8_t \<Rightarrow> uint16_t \<Rightarrow> uint8_t \<Rightarrow> uint8_t \<Rightarrow>
   'a machine_scheme \<Rightarrow> 'a machine_scheme" where
  "set_bkg_based_submap set_bkg_submap x y w h map_ptr map_w base_tile s =
     (let s1 = s\<lparr>submap_tile_offset := base_tile\<rparr>;
          s2 = set_bkg_submap x y w h map_ptr map_w s1
      in s2\<lparr>submap_tile_offset := 0\<rparr>)"

text \<open>
  An application's sequence of tile-map calls, plain and based, in program order:
  \<open>do_bkg_calls\<close> runs the sequence, \<open>machines_at_calls\<close> lists the machine each call
  of the sequence is entered with.
\<close>

datatype bkg_call =
    Set_bkg_tiles uint8_t uint8_t uint8_t uint8_t uint16_t
  | Set_bkg_based_tiles uint8_t uint8_t uint8_t uint8_t uint16_t uint8_t
  | Set_bkg_submap uint8_t uint8_t uint8_t uint8_t uint16_t uint8_t
  | Set_bkg_based_submap uint8_t uint8_t uint8_t uint8_t uint16_t uint8_t uint8_t

fun do_bkg_call ::
  "'a set_bkg_tiles_t \<Rightarrow> 'a set_bkg_submap_t \<Rightarrow> bkg_call \<Rightarrow> 'a machine_scheme \<Rightarrow> 'a machine_scheme" where
  "do_bkg_call T M (Set_bkg_tiles x y w h tiles) s = T x y w h tiles s"
| "do_bkg_call T M (Set_bkg_based_tiles x y w h tiles base_tile) s =
     set_bkg_based_tiles T x y w h tiles base_tile s"
| "do_bkg_call T M (Set_bkg_submap x y w h map_ptr map_w) s = M x y w h map_ptr map_w s"
| "do_bkg_call T M (Set_bkg_based_submap x y w h map_ptr map_w base_tile) s =
     set_bkg_based_submap M x y w h map_ptr map_w base_tile s"

fun do_bkg_calls ::
  "'a set_bkg_tiles_t \<Rightarrow> 'a set_bkg_submap_t \<Rightarrow> bkg_call list \<Rightarrow> 'a machine_scheme \<Rightarrow> 'a machine_scheme" where
  "do_bkg_calls T M [] s = s"
| "do_bkg_calls T M (c # cs) s = do_bkg_calls T M cs (do_bkg_call T M c s)"

fun machines_at_calls ::
  "'a set_bkg_tiles_t \<Rightarrow> 'a set_bkg_submap_t \<Rightarrow> bkg_call list \<Rightarrow> 'a machine_scheme \<Rightarrow> 'a machine_scheme list" where
  "machines_at_calls T M [] s = []"
| "machines_at_calls T M (c # cs) s = s # machines_at_calls T M cs (do_bkg_call T M c s)"

section \<open>What a call may write\<close>

text \<open>
  \<open>writes_only_entry nb s s'\<close>: going from \<open>s\<close> to \<open>s'\<close>, the table keeps its length
  and every entry other than \<open>nb\<close>, and every other global and the whole rest of the
  machine are as they were.
\<close>

definition writes_only_entry :: "uint8_t \<Rightarrow> 'a machine_scheme \<Rightarrow> 'a machine_scheme \<Rightarrow> bool" where
  "writes_only_entry nb s s' \<longleftrightarrow>
     length (shadow_OAM s') = length (shadow_OAM s) \<and>
     (\<forall>i \<in> {0..<length (shadow_OAM s)} - {unat nb}. shadow_OAM s' ! i = shadow_OAM s ! i) \<and>
     shadow_OAM_base s' = shadow_OAM_base s \<and>
     map_tile_offset s' = map_tile_offset s \<and>
     submap_tile_offset s' = submap_tile_offset s \<and>
     bkg_scroll_x s' = bkg_scroll_x s \<and>
     bkg_scroll_y s' = bkg_scroll_y s \<and>
     shadow_PPUMASK s' = shadow_PPUMASK s \<and>
     shadow_PPUCTRL s' = shadow_PPUCTRL s \<and>
     machine.more s' = machine.more s"

text \<open>
  \<open>tile_offsets_zero\<close>: both tile offsets are 0. \<open>keeps_tile_offsets f\<close>: the routine
  \<open>f\<close> returns with both tile offsets as it found them.
\<close>

definition tile_offsets_zero :: "'a machine_scheme \<Rightarrow> bool" where
  "tile_offsets_zero s \<longleftrightarrow> map_tile_offset s = 0 \<and> submap_tile_offset s = 0"

definition keeps_tile_offsets :: "('a machine_scheme \<Rightarrow> 'a machine_scheme) \<Rightarrow> bool" where
  "keeps_tile_offsets f \<longleftrightarrow>
     (\<forall>s. map_tile_offset (f s) = map_tile_offset s \<and>
          submap_tile_offset (f s) = submap_tile_offset s)"

section \<open>An example machine\<close>

text \<open>
  A concrete machine for evaluating the functions: 64 sprites, all hidden at
  \<open>y = 240\<close>, the default buffer at \<open>0x0200\<close> selected for DMA.
\<close>

definition hidden_item :: OAM_item_t where
  "hidden_item = \<lparr>oam_y = 240, oam_tile = 0, oam_prop = 0, oam_x = 0\<rparr>"

definition example_machine :: machine where
  "example_machine =
     \<lparr>shadow_OAM = replicate 64 hidden_item, shadow_OAM_base = 2,
      map_tile_offset = 0, submap_tile_offset = 0, bkg_scroll_x = 0, bkg_scroll_y = 0,
      shadow_PPUMASK = 0, shadow_PPUCTRL = 0\<rparr>"

text \<open>
  The same machine with one visible sprite: entry 3 at \<open>(50, 100)\<close>, tile 66,
  property flags \<open>0x1C\<close>.
\<close>

definition visible_item :: OAM_item_t where
  "visible_item = \<lparr>oam_y = 100, oam_tile = 66, oam_prop = 28, oam_x = 50\<rparr>"

definition visible_machine :: machine where
  "visible_machine =
     \<lparr>shadow_OAM = (replicate 64 hidden_item)[3 := visible_item], shadow_OAM_base = 2,
      map_tile_offset = 0, submap_tile_offset = 0, bkg_scroll_x = 0, bkg_scroll_y = 0,
      shadow_PPUMASK = 0, shadow_PPUCTRL = 0\<rparr>"

text \<open>
  Stand-ins for the routines the header only declares, for evaluating the inline
  functions: the tile-data routines record their arguments, the tile-map routines
  record the two offsets they are entered with.
\<close>

record tile_log =
  bkg_writes :: "(uint8_t \<times> uint8_t \<times> uint16_t) list"
  sprite_writes :: "(uint8_t \<times> uint8_t \<times> uint16_t) list"

definition log_bkg_data :: "uint8_t \<Rightarrow> uint8_t \<Rightarrow> uint16_t \<Rightarrow> tile_log \<Rightarrow> tile_log" where
  "log_bkg_data first_tile nb_tiles data l = l\<lparr>bkg_writes := bkg_writes l @ [(first_tile, nb_tiles, data)]\<rparr>"

definition log_sprite_data :: "uint8_t \<Rightarrow> uint8_t \<Rightarrow> uint16_t \<Rightarrow> tile_log \<Rightarrow> tile_log" where
  "log_sprite_data first_tile nb_tiles data l = l\<lparr>sprite_writes := sprite_writes l @ [(first_tile, nb_tiles, data)]\<rparr>"

definition empty_tile_log :: tile_log where
  "empty_tile_log = \<lparr>bkg_writes = [], sprite_writes = []\<rparr>"

record logged_machine = machine +
  offsets_seen :: "(uint8_t \<times> uint8_t) list"

definition logging_set_bkg_tiles ::
  "uint8_t \<Rightarrow> uint8_t \<Rightarrow> uint8_t \<Rightarrow> uint8_t \<Rightarrow> uint16_t \<Rightarrow> logged_machine \<Rightarrow> logged_machine" where
  "logging_set_bkg_tiles x y w h tiles s =
     s\<lparr>offsets_seen := offsets_seen s @ [(map_tile_offset s, submap_tile_offset s)]\<rparr>"

definition logging_set_bkg_submap ::
  "uint8_t \<Rightarrow> uint8_t \<Rightarrow> uint8_t \<Rightarrow> uint8_t \<Rightarrow> uint16_t \<Rightarrow> uint8_t \<Rightarrow> logged_machine \<Rightarrow> logged_machine" where
  "logging_set_bkg_submap x y w h map_ptr map_w s =
     s\<lparr>offsets_seen := offsets_seen s @ [(map_tile_offset s, submap_tile_offset s)]\<rparr>"

definition example_logged_machine :: logged_machine where
  "example_logged_machine =
     \<lparr>shadow_OAM = replicate 64 hidden_item, shadow_OAM_base = 2,
      map_tile_offset = 0, submap_tile_offset = 0, bkg_scroll_x = 0, bkg_scroll_y = 0,
      shadow_PPUMASK = 0, shadow_PPUCTRL = 0, offsets_seen = []\<rparr>"

definition example_bkg_calls :: "bkg_call list" where
  "example_bkg_calls =
     [Set_bkg_based_tiles 0 0 2 2 0x8000 100,
      Set_bkg_tiles 2 0 2 2 0x8000,
      Set_bkg_based_submap 0 2 4 4 0x9000 40 7,
      Set_bkg_submap 4 2 4 4 0x9000 40]"

section \<open>Shared facts\<close>

lemma index_in_table:
  "length (shadow_OAM s) = MAX_HARDWARE_SPRITES \<Longrightarrow> nb < 64 \<Longrightarrow> unat nb < length (shadow_OAM s)"
  for nb :: uint8_t
  by (simp add: MAX_HARDWARE_SPRITES_def word_less_nat_alt)

lemma OAM_item_modify_Some:
  "unat nb < length (shadow_OAM s) \<Longrightarrow>
   OAM_item_modify nb f s =
     Some (s\<lparr>shadow_OAM := (shadow_OAM s)[unat nb := f (shadow_OAM s ! unat nb)]\<rparr>)"
  by (simp add: OAM_item_modify_def)

lemma OAM_item_at_modified:
  "unat nb < length (shadow_OAM s) \<Longrightarrow>
   OAM_item_at nb (s\<lparr>shadow_OAM := (shadow_OAM s)[unat nb := itm]\<rparr>) = Some itm"
  by (simp add: OAM_item_at_def)

lemma sint_delta: "- 128 \<le> d \<Longrightarrow> d \<le> 127 \<Longrightarrow> sint (word_of_int d :: 8 word) = d"
  by (simp add: sint_sbintrunc' signed_take_bit_int_eq_self)

lemma uint_back: "uint (word_of_int k :: 8 word) = k mod 256"
  by (simp only: uint_word_of_int) simp

lemma uint_add_delta: "uint (p + word_of_int d :: 8 word) = (uint p + d) mod 256"
proof -
  have "p + word_of_int d = (word_of_int (uint p + d) :: 8 word)"
    by simp
  then show ?thesis
    by (simp only: uint_back)
qed

lemma OAM_item_modify_frame:
  "unat nb < length (shadow_OAM s) \<Longrightarrow>
   \<exists>s'. OAM_item_modify nb f s = Some s' \<and> writes_only_entry nb s s'"
  by (simp add: OAM_item_modify_Some writes_only_entry_def)

lemma unat_uint16_bound: "unat (p :: uint16_t) < 65536"
  using unsigned_less [of p, where 'a = nat] by simp

lemma unat_high_byte: "unat (ucast (drop_bit 8 p :: uint16_t) :: uint8_t) = unat p div 256"
proof -
  have small: "unat p div 256 < 256"
    using unat_uint16_bound [of p] by simp
  have "unat (ucast (drop_bit 8 p :: uint16_t) :: uint8_t) = take_bit 8 (drop_bit 8 (unat p))"
    by (simp add: unsigned_ucast_eq unat_drop_bit_eq)
  also have "\<dots> = (unat p div 256) mod 256"
    by (simp only: take_bit_eq_mod drop_bit_eq_div) simp
  also from small have "\<dots> = unat p div 256"
    by simp
  finally show ?thesis .
qed

lemma SET_SHADOW_OAM_ADDRESS_base:
  "unat (shadow_OAM_base (SET_SHADOW_OAM_ADDRESS p s)) = unat p div 256"
  by (simp add: SET_SHADOW_OAM_ADDRESS_def unat_high_byte)

lemma ENABLE_OAM_DMA_base:
  "unat (shadow_OAM_base (ENABLE_OAM_DMA a s)) = unat a div 256"
  by (simp add: ENABLE_OAM_DMA_def unat_high_byte)

lemma high_byte_cong:
  assumes "unat (p :: uint16_t) div 256 = unat (q :: uint16_t) div 256"
  shows "(ucast (drop_bit 8 p) :: uint8_t) = ucast (drop_bit 8 q)"
proof -
  from assms have "unat (ucast (drop_bit 8 p) :: uint8_t) = unat (ucast (drop_bit 8 q) :: uint8_t)"
    by (simp only: unat_high_byte)
  then show ?thesis
    by (rule word_unat_eq_iff [THEN iffD2])
qed

lemma aligned_high_byte: "unat (p :: uint16_t) mod 256 = 0 \<Longrightarrow> 256 * (unat p div 256) = unat p"
  by (simp add: mult_div_mod_eq [symmetric] mod_eq_0_iff_dvd)

lemma ENABLE_OAM_DMA_overwrites:
  "ENABLE_OAM_DMA a (SET_SHADOW_OAM_ADDRESS p s) = ENABLE_OAM_DMA a s"
  by (simp add: ENABLE_OAM_DMA_def SET_SHADOW_OAM_ADDRESS_def)

lemma unat_low_byte: "unat (ucast (w :: uint16_t) :: uint8_t) = unat w mod 256"
  by (simp add: unsigned_ucast_eq take_bit_eq_mod)

lemma unat_256: "unat (256 :: uint16_t) = 256"
  by simp

lemma sprite_tile_number:
  assumes "\<not> first_tile < (256 :: uint16_t)"
  shows "unat (ucast (first_tile - 256) :: uint8_t) = (unat first_tile - 256) mod 256"
proof -
  from assms have "256 \<le> first_tile"
    by (simp only: not_less)
  then have "unat (first_tile - 256) = unat first_tile - unat (256 :: uint16_t)"
    by (rule unat_sub)
  then show ?thesis
    by (simp only: unat_low_byte unat_256)
qed

lemma set_bkg_based_tiles_zero:
  assumes "keeps_tile_offsets (T x y w h tiles)" and "tile_offsets_zero s"
  shows "tile_offsets_zero (set_bkg_based_tiles T x y w h tiles base_tile s)"
  using assms
  by (simp add: keeps_tile_offsets_def tile_offsets_zero_def set_bkg_based_tiles_def Let_def)

lemma set_bkg_based_submap_zero:
  assumes "keeps_tile_offsets (M x y w h map_ptr map_w)" and "tile_offsets_zero s"
  shows "tile_offsets_zero (set_bkg_based_submap M x y w h map_ptr map_w base_tile s)"
  using assms
  by (simp add: keeps_tile_offsets_def tile_offsets_zero_def set_bkg_based_submap_def Let_def)

lemma keeps_tile_offsets_zero:
  "keeps_tile_offsets f \<Longrightarrow> tile_offsets_zero s \<Longrightarrow> tile_offsets_zero (f s)"
  by (simp add: keeps_tile_offsets_def tile_offsets_zero_def)

lemma do_bkg_call_zero:
  assumes T: "\<forall>x y w h tiles. keeps_tile_offsets (T x y w h tiles)"
    and M: "\<forall>x y w h map_ptr map_w. keeps_tile_offsets (M x y w h map_ptr map_w)"
    and zero: "tile_offsets_zero s"
  shows "tile_offsets_zero (do_bkg_call T M c s)"
proof (cases c)
  case (Set_bkg_tiles x y w h tiles)
  with T zero show ?thesis
    by (simp add: keeps_tile_offsets_zero)
next
  case (Set_bkg_based_tiles x y w h tiles base_tile)
  with T zero show ?thesis
    by (simp add: set_bkg_based_tiles_zero)
next
  case (Set_bkg_submap x y w h map_ptr map_w)
  with M zero show ?thesis
    by (simp add: keeps_tile_offsets_zero)
next
  case (Set_bkg_based_submap x y w h map_ptr map_w base_tile)
  with M zero show ?thesis
    by (simp add: set_bkg_based_submap_zero)
qed

lemma do_bkg_calls_zero:
  assumes T: "\<forall>x y w h tiles. keeps_tile_offsets (T x y w h tiles)"
    and M: "\<forall>x y w h map_ptr map_w. keeps_tile_offsets (M x y w h map_ptr map_w)"
  shows "tile_offsets_zero s \<Longrightarrow>
         (\<forall>m \<in> set (machines_at_calls T M cs s). tile_offsets_zero m) \<and>
         tile_offsets_zero (do_bkg_calls T M cs s)"
proof (induction cs arbitrary: s)
  case Nil
  then show ?case by simp
next
  case (Cons c cs)
  from T M Cons.prems have "tile_offsets_zero (do_bkg_call T M c s)"
    by (rule do_bkg_call_zero)
  then have "(\<forall>m \<in> set (machines_at_calls T M cs (do_bkg_call T M c s)). tile_offsets_zero m) \<and>
      tile_offsets_zero (do_bkg_calls T M cs (do_bkg_call T M c s))"
    by (rule Cons.IH)
  with Cons.prems show ?case by simp
qed

lemma logging_set_bkg_tiles_keeps: "keeps_tile_offsets (logging_set_bkg_tiles x y w h tiles)"
  by (simp add: keeps_tile_offsets_def logging_set_bkg_tiles_def)

lemma logging_set_bkg_submap_keeps: "keeps_tile_offsets (logging_set_bkg_submap x y w h map_ptr map_w)"
  by (simp add: keeps_tile_offsets_def logging_set_bkg_submap_def)

lemma example_offsets_seen:
  "offsets_seen (do_bkg_calls logging_set_bkg_tiles logging_set_bkg_submap example_bkg_calls
      example_logged_machine) = [(100, 0), (0, 0), (0, 7), (0, 0)]"
  by (simp add: example_bkg_calls_def example_logged_machine_def logging_set_bkg_tiles_def
      logging_set_bkg_submap_def set_bkg_based_tiles_def set_bkg_based_submap_def Let_def)

lemma visible_machine_entry: "shadow_OAM visible_machine ! unat (3 :: uint8_t) = visible_item"
  by (simp add: visible_machine_def)

lemma identifies_iff_same_page:
  assumes "unat (p :: uint16_t) mod 256 = 0"
  shows "(256 * (unat (a :: uint16_t) div 256) = unat p) = (unat p div 256 = unat a div 256)"
proof -
  from assms have "256 * (unat p div 256) = unat p"
    by (rule aligned_high_byte)
  then show ?thesis
    by auto
qed

section \<open>Tile index round trip\<close>

text \<open>
  C2. For every index in [0,63] and every byte \<open>t\<close>, \<open>set_sprite_tile\<close> on a table of
  64 entries returns, and \<open>get_sprite_tile\<close> of the same index on the resulting machine
  returns exactly \<open>t\<close>.
\<close>

theorem set_then_get_sprite_tile:
  fixes nb :: uint8_t and s :: "'a machine_scheme"
  assumes "length (shadow_OAM s) = MAX_HARDWARE_SPRITES" and "nb < 64"
  shows "\<exists>s'. set_sprite_tile nb t s = Some s' \<and> get_sprite_tile nb s' = Some t"
proof -
  from assms have inside: "unat nb < length (shadow_OAM s)"
    by (rule index_in_table)
  then show ?thesis
    by (simp add: set_sprite_tile_def get_sprite_tile_def OAM_item_modify_Some
        OAM_item_at_modified)
qed

theorem set_then_get_sprite_tile_witness:
  "length (shadow_OAM example_machine) = MAX_HARDWARE_SPRITES \<and> (5 :: uint8_t) < 64 \<and>
   (\<exists>s'. set_sprite_tile 5 7 example_machine = Some s' \<and> get_sprite_tile 5 s' = Some 7)"
  using set_then_get_sprite_tile [of example_machine 5 7]
  by (simp add: example_machine_def MAX_HARDWARE_SPRITES_def)

section \<open>Property flags round trip\<close>

text \<open>
  C7. For every index in [0,63] and every byte \<open>flags\<close>, \<open>set_sprite_prop\<close> stores
  \<open>flags\<close> as it is in the property field of the entry, and \<open>get_sprite_prop\<close>
  afterwards returns exactly \<open>flags\<close>: no bit is masked, cleared or reinterpreted.
\<close>

theorem set_then_get_sprite_prop:
  fixes nb :: uint8_t and s :: "'a machine_scheme"
  assumes "length (shadow_OAM s) = MAX_HARDWARE_SPRITES" and "nb < 64"
  shows "\<exists>s'. set_sprite_prop nb flags s = Some s' \<and>
              oam_prop (shadow_OAM s' ! unat nb) = flags \<and>
              get_sprite_prop nb s' = Some flags"
proof -
  from assms have inside: "unat nb < length (shadow_OAM s)"
    by (rule index_in_table)
  then show ?thesis
    by (simp add: set_sprite_prop_def get_sprite_prop_def OAM_item_modify_Some
        OAM_item_at_modified)
qed

theorem set_then_get_sprite_prop_witness:
  "length (shadow_OAM example_machine) = MAX_HARDWARE_SPRITES \<and> (63 :: uint8_t) < 64 \<and>
   (\<exists>s'. set_sprite_prop 63 255 example_machine = Some s' \<and>
         oam_prop (shadow_OAM s' ! unat (63 :: uint8_t)) = 255 \<and>
         get_sprite_prop 63 s' = Some 255)"
  using set_then_get_sprite_prop [of example_machine 63 255]
  by (simp add: example_machine_def MAX_HARDWARE_SPRITES_def)

section \<open>Hiding a sprite\<close>

text \<open>
  C4. For every index in [0,63], \<open>hide_sprite\<close> sets the vertical position of the
  entry to exactly 240 and leaves its tile index, property flags and horizontal
  position as they were; \<open>get_sprite_prop\<close> after the hide returns the property value
  held before it.
\<close>

theorem hide_sprite_only_y:
  fixes nb :: uint8_t and s :: "'a machine_scheme"
  assumes "length (shadow_OAM s) = MAX_HARDWARE_SPRITES" and "nb < 64"
  shows "\<exists>s'. hide_sprite nb s = Some s' \<and>
              oam_y (shadow_OAM s' ! unat nb) = 240 \<and>
              oam_tile (shadow_OAM s' ! unat nb) = oam_tile (shadow_OAM s ! unat nb) \<and>
              oam_prop (shadow_OAM s' ! unat nb) = oam_prop (shadow_OAM s ! unat nb) \<and>
              oam_x (shadow_OAM s' ! unat nb) = oam_x (shadow_OAM s ! unat nb) \<and>
              get_sprite_prop nb s' = Some (oam_prop (shadow_OAM s ! unat nb)) \<and>
              get_sprite_prop nb s' = get_sprite_prop nb s"
proof -
  from assms have inside: "unat nb < length (shadow_OAM s)"
    by (rule index_in_table)
  then have before: "get_sprite_prop nb s = Some (oam_prop (shadow_OAM s ! unat nb))"
    by (simp add: get_sprite_prop_def OAM_item_at_def)
  from inside show ?thesis
    unfolding before
    by (simp add: hide_sprite_def get_sprite_prop_def OAM_item_modify_Some
        OAM_item_at_modified)
qed

theorem hide_sprite_only_y_witness:
  "length (shadow_OAM visible_machine) = MAX_HARDWARE_SPRITES \<and> (3 :: uint8_t) < 64 \<and>
   oam_y (shadow_OAM visible_machine ! 3) = 100 \<and>
   get_sprite_prop 3 visible_machine = Some 28 \<and>
   (\<exists>s'. hide_sprite 3 visible_machine = Some s' \<and>
         oam_y (shadow_OAM s' ! 3) = 240 \<and>
         oam_tile (shadow_OAM s' ! 3) = 66 \<and>
         oam_prop (shadow_OAM s' ! 3) = 28 \<and>
         oam_x (shadow_OAM s' ! 3) = 50 \<and>
         get_sprite_prop 3 s' = Some 28)"
proof -
  have table: "length (shadow_OAM visible_machine) = MAX_HARDWARE_SPRITES"
    by (simp add: visible_machine_def MAX_HARDWARE_SPRITES_def)
  have index: "(3 :: uint8_t) < 64" and at: "unat (3 :: uint8_t) = 3"
    by simp_all
  have before: "oam_y (shadow_OAM visible_machine ! 3) = 100"
    "oam_tile (shadow_OAM visible_machine ! 3) = 66"
    "oam_prop (shadow_OAM visible_machine ! 3) = 28"
    "oam_x (shadow_OAM visible_machine ! 3) = 50"
    using visible_machine_entry by (simp_all add: visible_item_def)
  have prop_before: "get_sprite_prop 3 visible_machine = Some 28"
    by (simp add: get_sprite_prop_def OAM_item_at_def visible_machine_def visible_item_def)
  from hide_sprite_only_y [OF table index] obtain s' where
    "hide_sprite 3 visible_machine = Some s'"
    "oam_y (shadow_OAM s' ! 3) = 240"
    "oam_tile (shadow_OAM s' ! 3) = 66"
    "oam_prop (shadow_OAM s' ! 3) = 28"
    "oam_x (shadow_OAM s' ! 3) = 50"
    "get_sprite_prop 3 s' = Some 28"
    unfolding at before by blast
  with table index before(1) prop_before show ?thesis
    by blast
qed

section \<open>Absolute placement\<close>

text \<open>
  C6. For every index in [0,63] and all bytes \<open>x\<close>, \<open>y\<close>, after \<open>move_sprite\<close> the
  horizontal position of the entry is \<open>x\<close> and its vertical position is \<open>y\<close>, whatever
  the position was before, and its tile index and property flags are unchanged.
\<close>

theorem move_sprite_absolute:
  fixes nb :: uint8_t and s :: "'a machine_scheme"
  assumes "length (shadow_OAM s) = MAX_HARDWARE_SPRITES" and "nb < 64"
  shows "\<exists>s'. move_sprite nb x y s = Some s' \<and>
              oam_x (shadow_OAM s' ! unat nb) = x \<and>
              oam_y (shadow_OAM s' ! unat nb) = y \<and>
              oam_tile (shadow_OAM s' ! unat nb) = oam_tile (shadow_OAM s ! unat nb) \<and>
              oam_prop (shadow_OAM s' ! unat nb) = oam_prop (shadow_OAM s ! unat nb)"
proof -
  from assms have inside: "unat nb < length (shadow_OAM s)"
    by (rule index_in_table)
  then show ?thesis
    by (simp add: move_sprite_def OAM_item_modify_Some)
qed

theorem move_sprite_absolute_witness:
  "length (shadow_OAM example_machine) = MAX_HARDWARE_SPRITES \<and> (17 :: uint8_t) < 64 \<and>
   (\<exists>s'. move_sprite 17 100 50 example_machine = Some s' \<and>
         oam_x (shadow_OAM s' ! 17) = 100 \<and>
         oam_y (shadow_OAM s' ! 17) = 50 \<and>
         oam_tile (shadow_OAM s' ! 17) = 0 \<and>
         oam_prop (shadow_OAM s' ! 17) = 0)"
  using move_sprite_absolute [of example_machine 17 100 50]
  by (simp add: example_machine_def MAX_HARDWARE_SPRITES_def hidden_item_def)

section \<open>Relative placement\<close>

text \<open>
  C3. For every index in [0,63], every position \<open>(x, y)\<close> of the entry and every signed
  delta pair \<open>(dx, dy)\<close> in [-128,127], passed as the \<open>int8_t\<close> bytes that hold them,
  \<open>scroll_sprite\<close> leaves the horizontal position at \<open>(x + dx) mod 256\<close> and the
  vertical position at \<open>(y + dy) mod 256\<close>.
\<close>

theorem scroll_sprite_wraps:
  fixes nb :: uint8_t and s :: "'a machine_scheme"
  assumes "length (shadow_OAM s) = MAX_HARDWARE_SPRITES" and "nb < 64"
    and "- 128 \<le> dx" "dx \<le> 127" "- 128 \<le> dy" "dy \<le> 127"
  shows "\<exists>s'. scroll_sprite nb (word_of_int dx) (word_of_int dy) s = Some s' \<and>
              uint (oam_x (shadow_OAM s' ! unat nb)) = (uint (oam_x (shadow_OAM s ! unat nb)) + dx) mod 256 \<and>
              uint (oam_y (shadow_OAM s' ! unat nb)) = (uint (oam_y (shadow_OAM s ! unat nb)) + dy) mod 256"
proof -
  from assms(1,2) have inside: "unat nb < length (shadow_OAM s)"
    by (rule index_in_table)
  from assms(3-6) have sx: "sint (word_of_int dx :: 8 word) = dx" and sy: "sint (word_of_int dy :: 8 word) = dy"
    by (simp_all add: sint_delta)
  from inside show ?thesis
    by (simp add: scroll_sprite_def OAM_item_modify_Some Let_def sx sy uint_add_delta)
qed

theorem scroll_sprite_wraps_witness:
  "length (shadow_OAM example_machine) = MAX_HARDWARE_SPRITES \<and> (9 :: uint8_t) < 64 \<and>
   - 128 \<le> (- 3 :: int) \<and> (- 3 :: int) \<le> 127 \<and> - 128 \<le> (20 :: int) \<and> (20 :: int) \<le> 127 \<and>
   (\<exists>s'. scroll_sprite 9 (word_of_int (- 3)) (word_of_int 20) example_machine = Some s' \<and>
         uint (oam_x (shadow_OAM s' ! 9)) = 253 \<and>
         uint (oam_y (shadow_OAM s' ! 9)) = 4)"
  using scroll_sprite_wraps [of example_machine 9 "- 3" 20]
  by (simp add: example_machine_def MAX_HARDWARE_SPRITES_def hidden_item_def)

section \<open>The mutators touch one entry of the shadow buffer\<close>

text \<open>
  C5. Each of \<open>set_sprite_tile\<close>, \<open>set_sprite_prop\<close>, \<open>move_sprite\<close>,
  \<open>scroll_sprite\<close> and \<open>hide_sprite\<close>, called with an index \<open>nb\<close> in [0,63], returns
  and modifies only entry \<open>nb\<close> of the shadow OAM: every other entry, the DMA
  configuration byte \<open>_shadow_OAM_base\<close> and all other state of the machine, the
  hardware registers among it, are unchanged.
\<close>

theorem mutators_write_only_their_entry:
  fixes nb :: uint8_t and s :: "'a machine_scheme"
  assumes "length (shadow_OAM s) = MAX_HARDWARE_SPRITES" and "nb < 64"
  shows "(\<exists>s'. set_sprite_tile nb tile s = Some s' \<and> writes_only_entry nb s s') \<and>
         (\<exists>s'. set_sprite_prop nb prop s = Some s' \<and> writes_only_entry nb s s') \<and>
         (\<exists>s'. move_sprite nb x y s = Some s' \<and> writes_only_entry nb s s') \<and>
         (\<exists>s'. scroll_sprite nb dx dy s = Some s' \<and> writes_only_entry nb s s') \<and>
         (\<exists>s'. hide_sprite nb s = Some s' \<and> writes_only_entry nb s s')"
proof -
  from assms have inside: "unat nb < length (shadow_OAM s)"
    by (rule index_in_table)
  show ?thesis
    unfolding set_sprite_tile_def set_sprite_prop_def move_sprite_def scroll_sprite_def
      hide_sprite_def
    by (intro conjI OAM_item_modify_frame inside)
qed

theorem mutators_write_only_their_entry_witness:
  "length (shadow_OAM example_machine) = MAX_HARDWARE_SPRITES \<and> (12 :: uint8_t) < 64 \<and>
   (\<exists>s'. set_sprite_tile 12 1 example_machine = Some s' \<and> writes_only_entry 12 example_machine s') \<and>
   (\<exists>s'. set_sprite_prop 12 2 example_machine = Some s' \<and> writes_only_entry 12 example_machine s') \<and>
   (\<exists>s'. move_sprite 12 3 4 example_machine = Some s' \<and> writes_only_entry 12 example_machine s') \<and>
   (\<exists>s'. scroll_sprite 12 5 6 example_machine = Some s' \<and> writes_only_entry 12 example_machine s') \<and>
   (\<exists>s'. hide_sprite 12 example_machine = Some s' \<and> writes_only_entry 12 example_machine s')"
proof -
  have table: "length (shadow_OAM example_machine) = MAX_HARDWARE_SPRITES"
    by (simp add: example_machine_def MAX_HARDWARE_SPRITES_def)
  have index: "(12 :: uint8_t) < 64"
    by simp
  from table index mutators_write_only_their_entry [OF table index, of 1 2 3 4 5 6]
  show ?thesis
    by (intro conjI) (elim conjE, assumption)+
qed

section \<open>The DMA source byte\<close>

text \<open>
  C8. \<open>SET_SHADOW_OAM_ADDRESS\<close> transfers only the high byte of its pointer argument:
  for every pointer \<open>p\<close> the resulting \<open>_shadow_OAM_base\<close> is the high byte of \<open>p\<close>
  (\<open>p div 256\<close>); two pointers with equal high bytes give the same machine; and for a
  pointer whose low byte is zero, \<open>_shadow_OAM_base\<close> times 256 is the pointer itself,
  so the byte identifies exactly that buffer.
\<close>

theorem SET_SHADOW_OAM_ADDRESS_high_byte:
  fixes p q :: uint16_t and s :: "'a machine_scheme"
  shows "unat (shadow_OAM_base (SET_SHADOW_OAM_ADDRESS p s)) = unat p div 256 \<and>
         (unat p div 256 = unat q div 256 \<longrightarrow>
            SET_SHADOW_OAM_ADDRESS p s = SET_SHADOW_OAM_ADDRESS q s) \<and>
         (unat p mod 256 = 0 \<longrightarrow>
            256 * unat (shadow_OAM_base (SET_SHADOW_OAM_ADDRESS p s)) = unat p)"
proof (intro conjI impI)
  show "unat (shadow_OAM_base (SET_SHADOW_OAM_ADDRESS p s)) = unat p div 256"
    by (rule SET_SHADOW_OAM_ADDRESS_base)
next
  assume "unat p div 256 = unat q div 256"
  then have "(ucast (drop_bit 8 p) :: uint8_t) = ucast (drop_bit 8 q)"
    by (rule high_byte_cong)
  then show "SET_SHADOW_OAM_ADDRESS p s = SET_SHADOW_OAM_ADDRESS q s"
    by (simp only: SET_SHADOW_OAM_ADDRESS_def)
next
  assume "unat p mod 256 = 0"
  then show "256 * unat (shadow_OAM_base (SET_SHADOW_OAM_ADDRESS p s)) = unat p"
    by (simp only: SET_SHADOW_OAM_ADDRESS_base aligned_high_byte)
qed

theorem SET_SHADOW_OAM_ADDRESS_high_byte_witness:
  "unat (shadow_OAM_base (SET_SHADOW_OAM_ADDRESS 0x0300 example_machine)) = 3 \<and>
   unat (0x0300 :: uint16_t) div 256 = unat (0x03FF :: uint16_t) div 256 \<and>
   SET_SHADOW_OAM_ADDRESS 0x0300 example_machine = SET_SHADOW_OAM_ADDRESS 0x03FF example_machine \<and>
   unat (0x0300 :: uint16_t) mod 256 = 0 \<and>
   256 * unat (shadow_OAM_base (SET_SHADOW_OAM_ADDRESS 0x0300 example_machine)) = 768"
proof -
  have same: "unat (0x0300 :: uint16_t) div 256 = unat (0x03FF :: uint16_t) div 256"
    by simp
  have aligned: "unat (0x0300 :: uint16_t) mod 256 = 0"
    by simp
  note high = SET_SHADOW_OAM_ADDRESS_high_byte [of "0x0300" example_machine "0x03FF"]
  from high have "unat (shadow_OAM_base (SET_SHADOW_OAM_ADDRESS 0x0300 example_machine)) =
      unat (0x0300 :: uint16_t) div 256"
    by (rule conjunct1)
  then have first: "unat (shadow_OAM_base (SET_SHADOW_OAM_ADDRESS 0x0300 example_machine)) = 3"
    by simp
  from high same have second:
    "SET_SHADOW_OAM_ADDRESS 0x0300 example_machine = SET_SHADOW_OAM_ADDRESS 0x03FF example_machine"
    by blast
  from high aligned have "256 * unat (shadow_OAM_base (SET_SHADOW_OAM_ADDRESS 0x0300 example_machine)) =
      unat (0x0300 :: uint16_t)"
    by blast
  then have third: "256 * unat (shadow_OAM_base (SET_SHADOW_OAM_ADDRESS 0x0300 example_machine)) = 768"
    by simp
  from first same second aligned third show ?thesis
    by blast
qed

section \<open>Selecting a buffer, then enabling the transfer\<close>

text \<open>
  C1 as stated: for every 256-byte-aligned \<open>p\<close>, after \<open>SET_SHADOW_OAM_ADDRESS(p)\<close>
  and then \<open>ENABLE_OAM_DMA\<close>, \<open>_shadow_OAM_base\<close> identifies buffer \<open>p\<close>. It fails:
  with the default buffer at \<open>0x0200\<close> and \<open>p = 0x0300\<close>, the byte identifies
  \<open>0x0200\<close> (512), not \<open>0x0300\<close>.
\<close>

theorem set_address_then_enable_counterexample:
  "unat (0x0300 :: uint16_t) mod 256 = 0 \<and>
   256 * unat (shadow_OAM_base
      (ENABLE_OAM_DMA 0x0200 (SET_SHADOW_OAM_ADDRESS 0x0300 example_machine))) = 512 \<and>
   256 * unat (shadow_OAM_base
      (ENABLE_OAM_DMA 0x0200 (SET_SHADOW_OAM_ADDRESS 0x0300 example_machine))) \<noteq>
     unat (0x0300 :: uint16_t)"
proof -
  have "unat (shadow_OAM_base
      (ENABLE_OAM_DMA 0x0200 (SET_SHADOW_OAM_ADDRESS 0x0300 example_machine))) =
      unat (0x0200 :: uint16_t) div 256"
    by (rule ENABLE_OAM_DMA_base)
  then have "unat (shadow_OAM_base
      (ENABLE_OAM_DMA 0x0200 (SET_SHADOW_OAM_ADDRESS 0x0300 example_machine))) = 2"
    by simp
  then show ?thesis
    by simp
qed

text \<open>
  C1, amended. For every 256-byte-aligned \<open>p\<close>, \<open>SET_SHADOW_OAM_ADDRESS(p)\<close> by itself
  leaves \<open>_shadow_OAM_base\<close> identifying buffer \<open>p\<close>. \<open>ENABLE_OAM_DMA\<close> after it
  overwrites the byte with the high byte of the address of the default \<open>shadow_OAM\<close>
  buffer, whatever \<open>p\<close> was: the machine is the one \<open>ENABLE_OAM_DMA\<close> alone gives, and
  the byte identifies buffer \<open>p\<close> exactly when \<open>p\<close> has the same high byte as the
  address of the default buffer. In the other order, \<open>ENABLE_OAM_DMA\<close> and then
  \<open>SET_SHADOW_OAM_ADDRESS(p)\<close>, the byte identifies \<open>p\<close>.
\<close>

theorem enable_resets_buffer_address:
  fixes p a :: uint16_t and s :: "'a machine_scheme"
  assumes "unat p mod 256 = 0"
  shows "256 * unat (shadow_OAM_base (SET_SHADOW_OAM_ADDRESS p s)) = unat p \<and>
         ENABLE_OAM_DMA a (SET_SHADOW_OAM_ADDRESS p s) = ENABLE_OAM_DMA a s \<and>
         unat (shadow_OAM_base (ENABLE_OAM_DMA a (SET_SHADOW_OAM_ADDRESS p s))) = unat a div 256 \<and>
         (256 * unat (shadow_OAM_base (ENABLE_OAM_DMA a (SET_SHADOW_OAM_ADDRESS p s))) = unat p) =
           (unat p div 256 = unat a div 256) \<and>
         256 * unat (shadow_OAM_base (SET_SHADOW_OAM_ADDRESS p (ENABLE_OAM_DMA a s))) = unat p"
proof -
  from assms have aligned: "256 * (unat p div 256) = unat p"
    by (rule aligned_high_byte)
  from assms have page: "(256 * (unat a div 256) = unat p) = (unat p div 256 = unat a div 256)"
    by (rule identifies_iff_same_page)
  show ?thesis
    by (simp only: SET_SHADOW_OAM_ADDRESS_base ENABLE_OAM_DMA_base ENABLE_OAM_DMA_overwrites
        aligned page simp_thms)
qed

theorem enable_resets_buffer_address_witness:
  "unat (0x0700 :: uint16_t) mod 256 = 0 \<and>
   256 * unat (shadow_OAM_base (SET_SHADOW_OAM_ADDRESS 0x0700 example_machine)) = 1792 \<and>
   ENABLE_OAM_DMA 0x0200 (SET_SHADOW_OAM_ADDRESS 0x0700 example_machine) =
     ENABLE_OAM_DMA 0x0200 example_machine \<and>
   unat (shadow_OAM_base (ENABLE_OAM_DMA 0x0200 (SET_SHADOW_OAM_ADDRESS 0x0700 example_machine))) = 2 \<and>
   256 * unat (shadow_OAM_base (ENABLE_OAM_DMA 0x0200 (SET_SHADOW_OAM_ADDRESS 0x0700 example_machine))) \<noteq> 1792 \<and>
   256 * unat (shadow_OAM_base (SET_SHADOW_OAM_ADDRESS 0x0700 (ENABLE_OAM_DMA 0x0200 example_machine))) = 1792 \<and>
   unat (0x0200 :: uint16_t) mod 256 = 0 \<and>
   256 * unat (shadow_OAM_base (ENABLE_OAM_DMA 0x0200 (SET_SHADOW_OAM_ADDRESS 0x0200 example_machine))) = 512"
proof -
  have aligned: "unat (0x0700 :: uint16_t) mod 256 = 0"
    and aligned_default: "unat (0x0200 :: uint16_t) mod 256 = 0"
    by simp_all
  have vals: "unat (0x0700 :: uint16_t) = 1792" "unat (0x0200 :: uint16_t) = 512"
    "(512 :: nat) div 256 = 2" "(1792 :: nat) div 256 = 7"
    by simp_all
  have other_page: "(7 :: nat) \<noteq> 2" and same_page: "(2 :: nat) = 2"
    by simp_all
  note reset = enable_resets_buffer_address [OF aligned, of example_machine "0x0200",
      unfolded vals]
  note default = enable_resets_buffer_address [OF aligned_default, of example_machine "0x0200",
      unfolded vals]
  from reset have first:
    "256 * unat (shadow_OAM_base (SET_SHADOW_OAM_ADDRESS 0x0700 example_machine)) = 1792"
    by blast
  from reset have second:
    "ENABLE_OAM_DMA 0x0200 (SET_SHADOW_OAM_ADDRESS 0x0700 example_machine) =
       ENABLE_OAM_DMA 0x0200 example_machine"
    by blast
  from reset have third:
    "unat (shadow_OAM_base (ENABLE_OAM_DMA 0x0200 (SET_SHADOW_OAM_ADDRESS 0x0700 example_machine))) = 2"
    by blast
  from reset other_page have fourth:
    "256 * unat (shadow_OAM_base (ENABLE_OAM_DMA 0x0200 (SET_SHADOW_OAM_ADDRESS 0x0700 example_machine))) \<noteq> 1792"
    by blast
  from reset have fifth:
    "256 * unat (shadow_OAM_base (SET_SHADOW_OAM_ADDRESS 0x0700 (ENABLE_OAM_DMA 0x0200 example_machine))) = 1792"
    by blast
  from default same_page have sixth:
    "256 * unat (shadow_OAM_base (ENABLE_OAM_DMA 0x0200 (SET_SHADOW_OAM_ADDRESS 0x0200 example_machine))) = 512"
    by blast
  from aligned first second third fourth fifth aligned_default sixth show ?thesis
    by blast
qed

section \<open>Native tile data goes to the background or to the sprites\<close>

text \<open>
  C9. For every \<open>first_tile\<close> and every \<open>nb_tiles\<close>, \<open>data\<close>:
  \<open>set_native_tile_data\<close> is \<open>set_bkg_data(first_tile, nb_tiles, data)\<close> when
  \<open>first_tile < 256\<close>, and \<open>set_sprite_data(first_tile - 256, nb_tiles, data)\<close> when
  \<open>first_tile \<ge> 256\<close>; at the boundary \<open>first_tile = 256\<close> it writes sprite tile 0.
  The tile number the callee receives is the \<open>uint8_t\<close> its parameter holds: that is
  \<open>first_tile\<close> itself below 256, \<open>first_tile - 256\<close> in the documented range up to
  511, and \<open>(first_tile - 256) mod 256\<close> in general.
\<close>

theorem set_native_tile_data_dispatch:
  fixes first_tile :: uint16_t
  shows "(first_tile < 256 \<longrightarrow>
            set_native_tile_data set_bkg_data set_sprite_data first_tile nb_tiles data s =
              set_bkg_data (ucast first_tile) nb_tiles data s \<and>
            unat (ucast first_tile :: uint8_t) = unat first_tile) \<and>
         (256 \<le> first_tile \<longrightarrow>
            set_native_tile_data set_bkg_data set_sprite_data first_tile nb_tiles data s =
              set_sprite_data (ucast (first_tile - 256)) nb_tiles data s \<and>
            unat (ucast (first_tile - 256) :: uint8_t) = (unat first_tile - 256) mod 256) \<and>
         (256 \<le> first_tile \<and> first_tile < 512 \<longrightarrow>
            unat (ucast (first_tile - 256) :: uint8_t) = unat first_tile - 256) \<and>
         set_native_tile_data set_bkg_data set_sprite_data 256 nb_tiles data s =
           set_sprite_data 0 nb_tiles data s"
proof (intro conjI impI)
  assume low: "first_tile < 256"
  then show "set_native_tile_data set_bkg_data set_sprite_data first_tile nb_tiles data s =
      set_bkg_data (ucast first_tile) nb_tiles data s"
    by (simp add: set_native_tile_data_def)
  from low have "unat first_tile < 256"
    by (simp add: word_less_nat_alt)
  then show "unat (ucast first_tile :: uint8_t) = unat first_tile"
    by (simp add: unat_low_byte)
next
  assume high: "256 \<le> first_tile"
  then have not_low: "\<not> first_tile < 256"
    by (simp only: not_less)
  then show "set_native_tile_data set_bkg_data set_sprite_data first_tile nb_tiles data s =
      set_sprite_data (ucast (first_tile - 256)) nb_tiles data s"
    by (simp add: set_native_tile_data_def)
  from not_low show "unat (ucast (first_tile - 256) :: uint8_t) = (unat first_tile - 256) mod 256"
    by (rule sprite_tile_number)
next
  assume range: "256 \<le> first_tile \<and> first_tile < 512"
  then have not_low: "\<not> first_tile < 256"
    by (simp only: not_less)
  from range have "unat first_tile < 512"
    by (simp add: word_less_nat_alt)
  then have "(unat first_tile - 256) mod 256 = unat first_tile - 256"
    by simp
  with sprite_tile_number [OF not_low]
  show "unat (ucast (first_tile - 256) :: uint8_t) = unat first_tile - 256"
    by simp
next
  show "set_native_tile_data set_bkg_data set_sprite_data 256 nb_tiles data s =
      set_sprite_data 0 nb_tiles data s"
    by (simp add: set_native_tile_data_def)
qed

theorem set_native_tile_data_dispatch_witness:
  "(5 :: uint16_t) < 256 \<and>
   set_native_tile_data log_bkg_data log_sprite_data 5 2 0x8000 empty_tile_log =
     \<lparr>bkg_writes = [(5, 2, 0x8000)], sprite_writes = []\<rparr> \<and>
   (256 :: uint16_t) \<le> 300 \<and> (300 :: uint16_t) < 512 \<and>
   set_native_tile_data log_bkg_data log_sprite_data 300 2 0x8000 empty_tile_log =
     \<lparr>bkg_writes = [], sprite_writes = [(44, 2, 0x8000)]\<rparr> \<and>
   unat (ucast (300 - 256 :: uint16_t) :: uint8_t) = 44 \<and>
   set_native_tile_data log_bkg_data log_sprite_data 256 2 0x8000 empty_tile_log =
     \<lparr>bkg_writes = [], sprite_writes = [(0, 2, 0x8000)]\<rparr>"
proof -
  have low: "(5 :: uint16_t) < 256" and high: "(256 :: uint16_t) \<le> 300"
    and range: "(300 :: uint16_t) < 512"
    by simp_all
  note at_5 = set_native_tile_data_dispatch
    [of 5 log_bkg_data log_sprite_data 2 "0x8000" empty_tile_log]
  note at_300 = set_native_tile_data_dispatch
    [of 300 log_bkg_data log_sprite_data 2 "0x8000" empty_tile_log]
  from at_5 low have "set_native_tile_data log_bkg_data log_sprite_data 5 2 0x8000 empty_tile_log =
      log_bkg_data (ucast (5 :: uint16_t)) 2 0x8000 empty_tile_log"
    by blast
  then have first: "set_native_tile_data log_bkg_data log_sprite_data 5 2 0x8000 empty_tile_log =
      \<lparr>bkg_writes = [(5, 2, 0x8000)], sprite_writes = []\<rparr>"
    by (simp add: log_bkg_data_def empty_tile_log_def)
  from at_300 high have "set_native_tile_data log_bkg_data log_sprite_data 300 2 0x8000 empty_tile_log =
      log_sprite_data (ucast (300 - 256 :: uint16_t)) 2 0x8000 empty_tile_log"
    by blast
  then have second: "set_native_tile_data log_bkg_data log_sprite_data 300 2 0x8000 empty_tile_log =
      \<lparr>bkg_writes = [], sprite_writes = [(44, 2, 0x8000)]\<rparr>"
    by (simp add: log_sprite_data_def empty_tile_log_def)
  from at_300 high range have "unat (ucast (300 - 256 :: uint16_t) :: uint8_t) = unat (300 :: uint16_t) - 256"
    by blast
  then have third: "unat (ucast (300 - 256 :: uint16_t) :: uint8_t) = 44"
    by simp
  from at_5 have "set_native_tile_data log_bkg_data log_sprite_data 256 2 0x8000 empty_tile_log =
      log_sprite_data 0 2 0x8000 empty_tile_log"
    by blast
  then have fourth: "set_native_tile_data log_bkg_data log_sprite_data 256 2 0x8000 empty_tile_log =
      \<lparr>bkg_writes = [], sprite_writes = [(0, 2, 0x8000)]\<rparr>"
    by (simp add: log_sprite_data_def empty_tile_log_def)
  from low first high range second third fourth show ?thesis
    by blast
qed

section \<open>The tile offsets are zero outside a based call\<close>

text \<open>
  C10. \<open>set_bkg_based_tiles\<close> enters \<open>set_bkg_tiles\<close> with \<open>_map_tile_offset\<close> set to
  \<open>base_tile\<close> and sets it back to 0 before returning; \<open>set_bkg_based_submap\<close> does
  the same with \<open>_submap_tile_offset\<close> around \<open>set_bkg_submap\<close>. Given that the two
  declared routines return with both offsets as they found them, and that both offsets
  start at 0: each based function leaves both offsets at 0, every call of any sequence
  of plain and based calls is entered with both offsets 0 (so the plain calls run with
  offset 0), and the sequence ends with both offsets 0.
\<close>

theorem tile_offsets_zero_outside_based_calls:
  fixes T :: "'a set_bkg_tiles_t" and M :: "'a set_bkg_submap_t" and s :: "'a machine_scheme"
  assumes T: "\<forall>x y w h tiles. keeps_tile_offsets (T x y w h tiles)"
    and M: "\<forall>x y w h map_ptr map_w. keeps_tile_offsets (M x y w h map_ptr map_w)"
    and zero: "tile_offsets_zero s"
  shows "set_bkg_based_tiles T x y w h tiles base_tile s =
           (T x y w h tiles (s\<lparr>map_tile_offset := base_tile\<rparr>))\<lparr>map_tile_offset := 0\<rparr> \<and>
         tile_offsets_zero (set_bkg_based_tiles T x y w h tiles base_tile s) \<and>
         set_bkg_based_submap M x y w h map_ptr map_w base_tile s =
           (M x y w h map_ptr map_w (s\<lparr>submap_tile_offset := base_tile\<rparr>))\<lparr>submap_tile_offset := 0\<rparr> \<and>
         tile_offsets_zero (set_bkg_based_submap M x y w h map_ptr map_w base_tile s) \<and>
         (\<forall>m \<in> set (machines_at_calls T M cs s). tile_offsets_zero m) \<and>
         tile_offsets_zero (do_bkg_calls T M cs s)"
proof -
  have "set_bkg_based_tiles T x y w h tiles base_tile s =
      (T x y w h tiles (s\<lparr>map_tile_offset := base_tile\<rparr>))\<lparr>map_tile_offset := 0\<rparr>"
    by (simp add: set_bkg_based_tiles_def Let_def)
  moreover from T zero have "tile_offsets_zero (set_bkg_based_tiles T x y w h tiles base_tile s)"
    by (simp add: set_bkg_based_tiles_zero)
  moreover have "set_bkg_based_submap M x y w h map_ptr map_w base_tile s =
      (M x y w h map_ptr map_w (s\<lparr>submap_tile_offset := base_tile\<rparr>))\<lparr>submap_tile_offset := 0\<rparr>"
    by (simp add: set_bkg_based_submap_def Let_def)
  moreover from M zero have "tile_offsets_zero (set_bkg_based_submap M x y w h map_ptr map_w base_tile s)"
    by (simp add: set_bkg_based_submap_zero)
  moreover from T M zero have "(\<forall>m \<in> set (machines_at_calls T M cs s). tile_offsets_zero m) \<and>
      tile_offsets_zero (do_bkg_calls T M cs s)"
    by (rule do_bkg_calls_zero)
  ultimately show ?thesis
    by blast
qed

theorem tile_offsets_zero_outside_based_calls_witness:
  "(\<forall>x y w h tiles. keeps_tile_offsets (logging_set_bkg_tiles x y w h tiles)) \<and>
   (\<forall>x y w h map_ptr map_w. keeps_tile_offsets (logging_set_bkg_submap x y w h map_ptr map_w)) \<and>
   tile_offsets_zero example_logged_machine \<and>
   tile_offsets_zero (set_bkg_based_tiles logging_set_bkg_tiles 0 0 2 2 0x8000 100 example_logged_machine) \<and>
   tile_offsets_zero (set_bkg_based_submap logging_set_bkg_submap 0 0 2 2 0x9000 40 100 example_logged_machine) \<and>
   tile_offsets_zero (do_bkg_calls logging_set_bkg_tiles logging_set_bkg_submap example_bkg_calls
      example_logged_machine) \<and>
   offsets_seen (do_bkg_calls logging_set_bkg_tiles logging_set_bkg_submap example_bkg_calls
      example_logged_machine) = [(100, 0), (0, 0), (0, 7), (0, 0)]"
proof -
  have T: "\<forall>x y w h tiles. keeps_tile_offsets (logging_set_bkg_tiles x y w h tiles)"
    by (simp add: logging_set_bkg_tiles_keeps)
  have M: "\<forall>x y w h map_ptr map_w. keeps_tile_offsets (logging_set_bkg_submap x y w h map_ptr map_w)"
    by (simp add: logging_set_bkg_submap_keeps)
  have zero: "tile_offsets_zero example_logged_machine"
    by (simp add: tile_offsets_zero_def example_logged_machine_def)
  note inv = tile_offsets_zero_outside_based_calls [OF T M zero,
      where x = 0 and y = 0 and w = 2 and h = 2 and tiles = "0x8000" and base_tile = 100
        and map_ptr = "0x9000" and map_w = 40 and cs = example_bkg_calls]
  from inv
  have first: "tile_offsets_zero (set_bkg_based_tiles logging_set_bkg_tiles 0 0 2 2 0x8000 100 example_logged_machine)"
    by blast
  from inv
  have second: "tile_offsets_zero (set_bkg_based_submap logging_set_bkg_submap 0 0 2 2 0x9000 40 100 example_logged_machine)"
    by blast
  from inv
  have third: "tile_offsets_zero (do_bkg_calls logging_set_bkg_tiles logging_set_bkg_submap example_bkg_calls
      example_logged_machine)"
    by blast
  from T M zero first second third example_offsets_seen show ?thesis
    by blast
qed

end
